theory Spec2Isabelle
  imports Main "HOL-Library.AList"
begin

section \<open>Exceptions, return values and effectful actions\<close>

text \<open>
  The persistence methods of \<open>src/db/models.py\<close> are coroutines that call a session object
  and either return a Python value or raise.  An action takes the state of the world (the
  objects, the session and the store behind it) and gives back either the exception raised
  or the value returned, together with the new state.
\<close>

datatype orig = UniqueViolationError | ForeignKeyViolationError | NotNullViolationError

datatype exc = IntegrityError orig | OtherError string

datatype 'e pyval = PyNone | PyTrue | PyObj 'e

type_synonym ('a, 's) action = "'s \<Rightarrow> (exc + 'a) \<times> 's"

definition ret :: "'a \<Rightarrow> ('a, 's) action" where
  "ret x s = (Inr x, s)"

definition bindE :: "('a, 's) action \<Rightarrow> ('a \<Rightarrow> ('b, 's) action) \<Rightarrow> ('b, 's) action" where
  "bindE m f s = (case m s of (Inl x, s1) \<Rightarrow> (Inl x, s1) | (Inr a, s1) \<Rightarrow> f a s1)"

text \<open>
  \<open>try: m  except IntegrityError as exception: h exception.orig\<close>.  Any other
  exception passes through the clause.
\<close>

definition except_IntegrityError ::
  "('a, 's) action \<Rightarrow> (orig \<Rightarrow> ('a, 's) action) \<Rightarrow> ('a, 's) action" where
  "except_IntegrityError m h s =
     (case m s of
        (Inl (IntegrityError og), s1) \<Rightarrow> h og s1
      | (r, s1) \<Rightarrow> (r, s1))"

text \<open>
  \<open>try: m  finally: f\<close>.  The cleanup runs on every exit; when the cleanup itself raises,
  its exception replaces the pending return value or exception.
\<close>

definition try_finally :: "('a, 's) action \<Rightarrow> (unit, 's) action \<Rightarrow> ('a, 's) action" where
  "try_finally m f s =
     (case m s of (r, s1) \<Rightarrow>
        (case f s1 of (Inl x, s2) \<Rightarrow> (Inl x, s2) | (Inr _, s2) \<Rightarrow> (r, s2)))"

section \<open>The session, as the methods see it\<close>

text \<open>
  The session (\<open>AsyncSession\<close>) and the builtin \<open>setattr\<close> are not defined in the
  repository; the methods receive them.  They are a parameter of the model: a record of
  actions over an arbitrary state.  \<open>add\<close>, \<open>commit\<close>, \<open>rollback\<close>, \<open>delete\<close> and
  \<open>close\<close> return \<open>None\<close>; \<open>merge\<close> returns the merged instance.
\<close>

record ('e, 'v, 's) session =
  db_add :: "'e \<Rightarrow> (unit, 's) action"
  db_commit :: "(unit, 's) action"
  db_rollback :: "(unit, 's) action"
  db_delete :: "'e \<Rightarrow> (unit, 's) action"
  db_merge :: "'e \<Rightarrow> ('e, 's) action"
  db_close :: "(unit, 's) action"
  setattr :: "'e \<Rightarrow> string \<Rightarrow> 'v \<Rightarrow> (unit, 's) action"

section \<open>The methods of \<open>Base\<close>\<close>

text \<open>\<open>Base.__tablename__\<close>: the class name in lower case, followed by \<open>s\<close>.\<close>

text \<open>
  \<open>str.lower\<close> on a class name: the letters \<open>A\<close> to \<open>Z\<close> (codes 65 to 90) get
  bit 5 set, which adds 32; every other byte is kept.  This is \<open>str.lower\<close> on ASCII
  names, which the three model classes have; Python would also lower a letter outside
  ASCII, which a string of bytes does not represent.
\<close>

definition lower_char :: "char \<Rightarrow> char" where
  "lower_char c =
     (case c of Char b0 b1 b2 b3 b4 b5 b6 b7 \<Rightarrow>
        (if (65::nat) \<le> of_char c \<and> of_char c \<le> (90::nat)
         then Char b0 b1 b2 b3 b4 True b6 b7 else c))"

definition tablename :: "string \<Rightarrow> string" where
  "tablename name = map lower_char name @ ''s''"

text \<open>\<open>Base.save\<close>: \<open>db_session.add(self); return await db_session.commit()\<close>.\<close>

definition save :: "('e, 'v, 's) session \<Rightarrow> 'e \<Rightarrow> ('e pyval, 's) action" where
  "save db_session self =
     bindE (db_add db_session self) (\<lambda>_.
     bindE (db_commit db_session) (\<lambda>_. ret PyNone))"

text \<open>\<open>Base.delete\<close>: delete, commit, \<open>return True\<close>.\<close>

definition delete :: "('e, 'v, 's) session \<Rightarrow> 'e \<Rightarrow> ('e pyval, 's) action" where
  "delete db_session self =
     bindE (db_delete db_session self) (\<lambda>_.
     bindE (db_commit db_session) (\<lambda>_. ret PyTrue))"

text \<open>
  \<open>Base.update\<close>: the loop \<open>for k, v in kwargs.items(): setattr(self, k, v)\<close>, then
  \<open>return await db.commit()\<close>.  The keyword arguments are the items of the dict, in order.
\<close>

fun assign_all :: "('e, 'v, 's) session \<Rightarrow> 'e \<Rightarrow> (string \<times> 'v) list \<Rightarrow> (unit, 's) action" where
  "assign_all db self [] = ret ()"
| "assign_all db self ((k, v) # kwargs) =
     bindE (setattr db self k v) (\<lambda>_. assign_all db self kwargs)"

definition update ::
  "('e, 'v, 's) session \<Rightarrow> 'e \<Rightarrow> (string \<times> 'v) list \<Rightarrow> ('e pyval, 's) action" where
  "update db self kwargs =
     bindE (assign_all db self kwargs) (\<lambda>_.
     bindE (db_commit db) (\<lambda>_. ret PyNone))"

text \<open>
  \<open>Base.save_or_update\<close>.  The handler returns the merged instance when
  \<open>exception.orig\<close> is a \<open>UniqueViolationError\<close>; otherwise it ends without a
  \<open>return\<close> and without raising again, so the method returns \<open>None\<close>.
\<close>

definition save_or_update :: "('e, 'v, 's) session \<Rightarrow> 'e \<Rightarrow> ('e pyval, 's) action" where
  "save_or_update db self =
     try_finally
       (except_IntegrityError
          (bindE (db_add db self) (\<lambda>_.
           bindE (db_commit db) (\<lambda>_. ret PyNone)))
          (\<lambda>og. if og = UniqueViolationError
                then bindE (db_merge db self) (\<lambda>m. ret (PyObj m))
                else ret PyNone))
       (db_close db)"

text \<open>The \<open>try\<close>/\<open>except\<close> part of \<open>save_or_update\<close>, named for the proofs.\<close>

definition attempt :: "('e, 'v, 's) session \<Rightarrow> 'e \<Rightarrow> ('e pyval, 's) action" where
  "attempt db self =
     except_IntegrityError
       (bindE (db_add db self) (\<lambda>_.
        bindE (db_commit db) (\<lambda>_. ret PyNone)))
       (\<lambda>og. if og = UniqueViolationError
             then bindE (db_merge db self) (\<lambda>m. ret (PyObj m))
             else ret PyNone)"

section \<open>Recording the calls a method makes\<close>

text \<open>
  To speak about which session calls a method issues, and in what order, a session is
  wrapped so that every call is appended to a log carried beside the state.  The wrapper
  changes neither results nor states.
\<close>

datatype ('e, 'v) call =
  Add 'e | Commit | Rollback | Delete 'e | Merge 'e | Close | SetAttr 'e string 'v

definition log_call ::
  "('e, 'v) call \<Rightarrow> ('a, 's) action \<Rightarrow> ('a, ('e, 'v) call list \<times> 's) action" where
  "log_call c m ls = (case m (snd ls) of (r, s1) \<Rightarrow> (r, (fst ls @ [c], s1)))"

definition logged ::
  "('e, 'v, 's) session \<Rightarrow> ('e, 'v, ('e, 'v) call list \<times> 's) session" where
  "logged db =
     \<lparr> db_add = (\<lambda>e. log_call (Add e) (db_add db e)),
       db_commit = log_call Commit (db_commit db),
       db_rollback = log_call Rollback (db_rollback db),
       db_delete = (\<lambda>e. log_call (Delete e) (db_delete db e)),
       db_merge = (\<lambda>e. log_call (Merge e) (db_merge db e)),
       db_close = log_call Close (db_close db),
       setattr = (\<lambda>e k v. log_call (SetAttr e k v) (setattr db e k v)) \<rparr>"

definition calls_of :: "('a, ('e, 'v) call list \<times> 's) action \<Rightarrow> 's \<Rightarrow> ('e, 'v) call list" where
  "calls_of m s = fst (snd (m ([], s)))"


section \<open>The declared schema\<close>

text \<open>
  The three model classes declare their attributes in the class body.  A declaration is a
  \<open>mapped_column(...)\<close> (or a bare \<open>Mapped[...]\<close> annotation, which declares a column
  too), a \<open>relationship(...)\<close>, or any other class attribute.  Only the first kind is a
  column of the table.
\<close>

datatype val = VNone | VInt int | VStr string | VBool bool

datatype coltype = Integer | String "nat option" | DateTime | Boolean | Enum "string list"

datatype dflt = DConst val | DUtcNow

record col =
  ctype :: coltype
  primary_key :: bool
  unique :: bool
  nullable :: bool
  default :: "dflt option"
  onupdate :: "dflt option"
  foreign_key :: "(string \<times> string \<times> string) option"

datatype decl = Column col | Relationship string string | ClassAttr

definition mapped_column :: "coltype \<Rightarrow> col" where
  "mapped_column ty =
     \<lparr> ctype = ty, primary_key = False, unique = False, nullable = False,
       default = None, onupdate = None, foreign_key = None \<rparr>"

definition User :: "(string \<times> decl) list" where
  "User =
     [(''id'', Column ((mapped_column Integer)\<lparr>primary_key := True\<rparr>)),
      (''chat_id'', Column ((mapped_column (String (Some 30)))\<lparr>unique := True\<rparr>)),
      (''fullname'', Column ((mapped_column (String None))\<lparr>nullable := True\<rparr>)),
      (''lang'', Column (mapped_column (String (Some 20)))),
      (''created_at'', Column ((mapped_column DateTime)\<lparr>default := Some DUtcNow\<rparr>)),
      (''updated_at'', Column ((mapped_column DateTime)
          \<lparr>default := Some DUtcNow, onupdate := Some DUtcNow\<rparr>)),
      (''is_admin'', Column ((mapped_column Boolean)\<lparr>default := Some (DConst (VBool False))\<rparr>)),
      (''phone_number'', Column (mapped_column (String (Some 20))))]"

definition Category :: "(string \<times> decl) list" where
  "Category =
     [(''id'', Column ((mapped_column Integer)\<lparr>primary_key := True\<rparr>)),
      (''name'', Column (mapped_column (String (Some 55)))),
      (''books'', Relationship ''Book'' ''category'')]"

text \<open>
  In \<open>Book\<close>, \<open>category_id\<close> carries no annotation, so it is nullable; \<open>VolEnum\<close> is a
  nested class; \<open>photo\<close> is assigned \<open>sqlalchemy.String(55)\<close>, a type object, not a
  \<open>mapped_column\<close>.
\<close>

definition Book :: "(string \<times> decl) list" where
  "Book =
     [(''VolEnum'', ClassAttr),
      (''id'', Column ((mapped_column Integer)\<lparr>primary_key := True\<rparr>)),
      (''title'', Column (mapped_column (String (Some 255)))),
      (''author'', Column (mapped_column (String (Some 255)))),
      (''vol'', Column ((mapped_column (Enum [''hard'', ''soft'']))
          \<lparr>default := Some (DConst (VStr ''soft''))\<rparr>)),
      (''amount'', Column (mapped_column Integer)),
      (''category_id'', Column ((mapped_column Integer)
          \<lparr>nullable := True, foreign_key := Some (''categorys'', ''id'', ''CASCADE'')\<rparr>)),
      (''category'', Relationship ''Category'' ''books''),
      (''photo'', ClassAttr)]"

definition models :: "string list" where
  "models = [''User'', ''Category'', ''Book'']"

definition class_body :: "string \<Rightarrow> (string \<times> decl) list" where
  "class_body name =
     (if name = ''User'' then User
      else if name = ''Category'' then Category
      else if name = ''Book'' then Book
      else [])"

fun decl_columns :: "(string \<times> decl) list \<Rightarrow> (string \<times> col) list" where
  "decl_columns [] = []"
| "decl_columns ((n, Column c) # ds) = (n, c) # decl_columns ds"
| "decl_columns (_ # ds) = decl_columns ds"

definition columns_of :: "string \<Rightarrow> (string \<times> col) list" where
  "columns_of name = decl_columns (class_body name)"

definition tables :: "string list" where
  "tables = map tablename models"

section \<open>A reference session over the declared schema\<close>

text \<open>
  Entities are objects on a heap, addressed by their index; an object has a class and an
  attribute dictionary.  The store is a list of rows, each tagged with its table.  The
  session keeps the objects added but not yet written (\<open>pending\<close>), the objects that
  mirror a row together with the identity of that row (\<open>persistent\<close>) and the objects
  marked for deletion (\<open>deleted\<close>).  \<open>clock\<close> is the value \<open>datetime.utcnow\<close> gives.
\<close>

record obj =
  cls :: string
  attrs :: "(string \<times> val) list"

type_synonym row = "(string \<times> val) list"

type_synonym database = "(string \<times> row) list"

record world =
  heap :: "obj list"
  pending :: "nat list"
  persistent :: "(nat \<times> val) list"
  deleted :: "nat list"
  store :: database
  clock :: int

text \<open>An attribute or column that was never set reads as \<open>None\<close>.\<close>

definition getv :: "(string \<times> val) list \<Rightarrow> string \<Rightarrow> val" where
  "getv al k = (case map_of al k of None \<Rightarrow> VNone | Some v \<Rightarrow> v)"

fun row_ids :: "string \<Rightarrow> database \<Rightarrow> int list" where
  "row_ids t [] = []"
| "row_ids t ((t', r) # d) =
     (case getv r ''id'' of
        VInt i \<Rightarrow> (if t' = t then i # row_ids t d else row_ids t d)
      | _ \<Rightarrow> row_ids t d)"

definition next_id :: "string \<Rightarrow> database \<Rightarrow> int" where
  "next_id t d = 1 + fold max (row_ids t d) 0"

definition in_table :: "string \<Rightarrow> string \<Rightarrow> val \<Rightarrow> database \<Rightarrow> bool" where
  "in_table t n v d = list_ex (\<lambda>tr. fst tr = t \<and> getv (snd tr) n = v) d"

text \<open>
  The constraints the schema declares, checked for one row against the rows already
  stored: a column that is not nullable holds a value; a primary-key or unique column
  repeats no stored value; a foreign key names a stored row.  The schema declares no
  other constraint.
\<close>

definition violation :: "(string \<times> col) list \<Rightarrow> string \<Rightarrow> row \<Rightarrow> database \<Rightarrow> orig option" where
  "violation cols t r d =
     (if list_ex (\<lambda>nc. \<not> nullable (snd nc) \<and> getv r (fst nc) = VNone) cols
      then Some NotNullViolationError
      else if list_ex (\<lambda>nc. (primary_key (snd nc) \<or> unique (snd nc))
                  \<and> getv r (fst nc) \<noteq> VNone \<and> in_table t (fst nc) (getv r (fst nc)) d) cols
      then Some UniqueViolationError
      else if list_ex (\<lambda>nc. case foreign_key (snd nc) of
                    None \<Rightarrow> False
                  | Some (t', c', _) \<Rightarrow>
                      getv r (fst nc) \<noteq> VNone \<and> \<not> in_table t' c' (getv r (fst nc)) d) cols
      then Some ForeignKeyViolationError
      else None)"

text \<open>
  The value written for a column on INSERT: the attribute when it is set, otherwise the
  next identity for a primary key, otherwise the declared default.
\<close>

definition insert_value :: "int \<Rightarrow> string \<Rightarrow> database \<Rightarrow> (string \<times> val) list \<Rightarrow> string \<times> col \<Rightarrow> val" where
  "insert_value now t d al nc =
     (if getv al (fst nc) \<noteq> VNone then getv al (fst nc)
      else if primary_key (snd nc) then VInt (next_id t d)
      else (case default (snd nc) of
              None \<Rightarrow> VNone
            | Some (DConst x) \<Rightarrow> x
            | Some DUtcNow \<Rightarrow> VInt now))"

definition insert_row :: "int \<Rightarrow> string \<Rightarrow> database \<Rightarrow> (string \<times> val) list \<Rightarrow> (string \<times> col) list \<Rightarrow> row" where
  "insert_row now t d al cols = map (\<lambda>nc. (fst nc, insert_value now t d al nc)) cols"

definition refresh :: "row \<Rightarrow> (string \<times> val) list \<Rightarrow> (string \<times> val) list" where
  "refresh r al = fold (\<lambda>nv. AList.update (fst nv) (snd nv)) r al"

text \<open>INSERT of the pending objects, in the order they were added.\<close>

fun flush_new :: "int \<Rightarrow> nat list \<Rightarrow> obj list \<Rightarrow> database \<Rightarrow> exc + (obj list \<times> database)" where
  "flush_new now [] h d = Inr (h, d)"
| "flush_new now (e # es) h d =
     (if e < length h then
        (let ob = h ! e;
             t = tablename (cls ob);
             r = insert_row now t d (attrs ob) (columns_of (cls ob))
         in case violation (columns_of (cls ob)) t r d of
              Some og \<Rightarrow> Inl (IntegrityError og)
            | None \<Rightarrow> flush_new now es (h[e := ob\<lparr>attrs := refresh r (attrs ob)\<rparr>]) (d @ [(t, r)]))
      else Inl (OtherError ''InvalidRequestError''))"

text \<open>
  UPDATE of the persistent objects: the row with the object's identity is replaced by the
  values of the declared columns when they differ from it; \<open>onupdate\<close> fills a column
  the caller did not change.
\<close>

definition is_row :: "string \<Rightarrow> val \<Rightarrow> string \<times> row \<Rightarrow> bool" where
  "is_row t i tr = (fst tr = t \<and> getv (snd tr) ''id'' = i)"

definition update_value :: "int \<Rightarrow> row \<Rightarrow> (string \<times> val) list \<Rightarrow> string \<times> col \<Rightarrow> val" where
  "update_value now old al nc =
     (if getv al (fst nc) \<noteq> getv old (fst nc) then getv al (fst nc)
      else (case onupdate (snd nc) of
              None \<Rightarrow> getv al (fst nc)
            | Some (DConst x) \<Rightarrow> x
            | Some DUtcNow \<Rightarrow> VInt now))"

fun flush_dirty :: "int \<Rightarrow> (nat \<times> val) list \<Rightarrow> obj list \<Rightarrow> database \<Rightarrow> exc + database" where
  "flush_dirty now [] h d = Inr d"
| "flush_dirty now ((e, i) # es) h d =
     (if e < length h then
        (let ob = h ! e;
             t = tablename (cls ob);
             cols = columns_of (cls ob)
         in case find (is_row t i) d of
              None \<Rightarrow> Inl (OtherError ''StaleDataError'')
            | Some (_, old) \<Rightarrow>
                (if map (\<lambda>nc. (fst nc, getv (attrs ob) (fst nc))) cols = old
                 then flush_dirty now es h d
                 else (let r = map (\<lambda>nc. (fst nc, update_value now old (attrs ob) nc)) cols;
                           rest = filter (\<lambda>tr. \<not> is_row t i tr) d
                       in case violation cols t r rest of
                            Some og \<Rightarrow> Inl (IntegrityError og)
                          | None \<Rightarrow>
                              flush_dirty now es h
                                (map (\<lambda>tr. if is_row t i tr then (t, r) else tr) d))))
      else Inl (OtherError ''InvalidRequestError''))"

text \<open>
  DELETE of a row.  For each foreign key of the schema that points at the row's table,
  the rows that reference it are removed when the key says \<open>CASCADE\<close>; under any other
  policy their presence is a violation.  No table of the schema is referenced by a table
  that is itself referenced, so one level is the whole cascade.
\<close>

definition references_to :: "string \<Rightarrow> (string \<times> string \<times> string \<times> string) list" where
  "references_to t =
     concat (map (\<lambda>m.
       concat (map (\<lambda>nc. case foreign_key (snd nc) of
                           None \<Rightarrow> []
                         | Some (t', c', pol) \<Rightarrow>
                             (if t' = t then [(tablename m, fst nc, c', pol)] else []))
                   (columns_of m)))
       models)"

fun apply_references :: "(string \<times> string \<times> string \<times> string) list \<Rightarrow> row \<Rightarrow> database \<Rightarrow> exc + database" where
  "apply_references [] r d = Inr d"
| "apply_references ((t2, n2, c', pol) # fks) r d =
     (let points = (\<lambda>tr. fst tr = t2 \<and> getv r c' \<noteq> VNone \<and> getv (snd tr) n2 = getv r c')
      in if pol = ''CASCADE'' then apply_references fks r (filter (\<lambda>tr. \<not> points tr) d)
         else if list_ex points d then Inl (IntegrityError ForeignKeyViolationError)
         else apply_references fks r d)"

fun flush_deleted :: "nat list \<Rightarrow> (nat \<times> val) list \<Rightarrow> obj list \<Rightarrow> database \<Rightarrow> exc + database" where
  "flush_deleted [] ps h d = Inr d"
| "flush_deleted (e # es) ps h d =
     (if e < length h then
        (let t = tablename (cls (h ! e)) in
         case map_of ps e of
           None \<Rightarrow> Inl (OtherError ''InvalidRequestError'')
         | Some i \<Rightarrow>
             (case find (is_row t i) d of
                None \<Rightarrow> Inl (OtherError ''StaleDataError'')
              | Some (_, r) \<Rightarrow>
                  (case apply_references (references_to t) r (filter (\<lambda>tr. \<not> is_row t i tr) d) of
                     Inl x \<Rightarrow> Inl x
                   | Inr d' \<Rightarrow> flush_deleted es ps h d')))
      else Inl (OtherError ''InvalidRequestError''))"

text \<open>
  Modelled from the spec: the session and transaction provider of section 6 (\<open>commit\<close>,
  \<open>rollback\<close>, \<open>close\<close>, \<open>merge\<close>) and the store behind it, which the repository uses
  but does not define.  Only \<open>commit\<close> writes to the store, and it writes everything or
  nothing: when a constraint fails, the transaction is rolled back inside \<open>commit\<close> and
  the exception is raised.  A rollback leaves the store as it is, drops the objects added
  or marked for deletion, and gives every persistent object the values of its stored row
  again.  \<open>merge\<close> looks for the stored row that shares a primary-key or unique value
  with the entity and gives back a new persistent object holding that row overlaid with
  the attributes the entity has set; it does not write.  \<open>close\<close> drops what the session
  holds.
\<close>

fun reload :: "database \<Rightarrow> (nat \<times> val) list \<Rightarrow> obj list \<Rightarrow> obj list" where
  "reload d [] h = h"
| "reload d ((e, i) # ps) h =
     reload d ps
       (if e < length h then
          (case find (is_row (tablename (cls (h ! e))) i) d of
             None \<Rightarrow> h
           | Some (_, r) \<Rightarrow> h[e := (h ! e)\<lparr>attrs := refresh r (attrs (h ! e))\<rparr>])
        else h)"

definition rolled_back :: "world \<Rightarrow> world" where
  "rolled_back w =
     w\<lparr>heap := reload (store w) (persistent w) (heap w), pending := [], deleted := []\<rparr>"

definition ref_add :: "nat \<Rightarrow> (unit, world) action" where
  "ref_add e w =
     (if \<not> e < length (heap w) then (Inl (OtherError ''InvalidRequestError''), w)
      else if cls (heap w ! e) \<notin> set models then (Inl (OtherError ''UnmappedInstanceError''), w)
      else if e \<in> set (pending w) \<or> e \<in> set (map fst (persistent w)) then (Inr (), w)
      else (Inr (), w\<lparr>pending := pending w @ [e]\<rparr>))"

definition ref_commit :: "(unit, world) action" where
  "ref_commit w =
     (case flush_new (clock w) (pending w) (heap w) (store w) of
        Inl x \<Rightarrow> (Inl x, rolled_back w)
      | Inr (h1, d1) \<Rightarrow>
          (case flush_dirty (clock w) (persistent w) h1 d1 of
             Inl x \<Rightarrow> (Inl x, rolled_back w)
           | Inr d2 \<Rightarrow>
               (case flush_deleted (deleted w) (persistent w) h1 d2 of
                  Inl x \<Rightarrow> (Inl x, rolled_back w)
                | Inr d3 \<Rightarrow>
                    (Inr (),
                     w\<lparr>heap := h1, store := d3,
                       persistent :=
                         map (\<lambda>e. (e, getv (attrs (h1 ! e)) ''id''))
                           (filter (\<lambda>e. e \<notin> set (deleted w))
                              (map fst (persistent w) @ pending w)),
                       pending := [], deleted := []\<rparr>))))"

definition ref_rollback :: "(unit, world) action" where
  "ref_rollback w = (Inr (), rolled_back w)"

definition ref_delete :: "nat \<Rightarrow> (unit, world) action" where
  "ref_delete e w =
     (if e \<in> set (map fst (persistent w))
      then (Inr (), w\<lparr>deleted := deleted w @ [e]\<rparr>)
      else (Inl (OtherError ''InvalidRequestError''), w))"

definition shares_key :: "(string \<times> col) list \<Rightarrow> string \<Rightarrow> (string \<times> val) list \<Rightarrow> string \<times> row \<Rightarrow> bool" where
  "shares_key cols t al tr =
     (fst tr = t \<and>
      list_ex (\<lambda>nc. (primary_key (snd nc) \<or> unique (snd nc))
                 \<and> getv al (fst nc) \<noteq> VNone \<and> getv (snd tr) (fst nc) = getv al (fst nc)) cols)"

definition overlay :: "(string \<times> val) list \<Rightarrow> row \<Rightarrow> (string \<times> val) list" where
  "overlay al r = map (\<lambda>nv. (fst nv, if getv al (fst nv) \<noteq> VNone then getv al (fst nv) else snd nv)) r"

definition ref_merge :: "nat \<Rightarrow> (nat, world) action" where
  "ref_merge e w =
     (if \<not> e < length (heap w) then (Inl (OtherError ''InvalidRequestError''), w)
      else
        (let ob = heap w ! e;
             m = length (heap w)
         in case find (shares_key (columns_of (cls ob)) (tablename (cls ob)) (attrs ob)) (store w) of
              Some (_, r) \<Rightarrow>
                (Inr m, w\<lparr>heap := heap w @ [ob\<lparr>attrs := overlay (attrs ob) r\<rparr>],
                          persistent := persistent w @ [(m, getv r ''id'')]\<rparr>)
            | None \<Rightarrow>
                (Inr m, w\<lparr>heap := heap w @ [ob], pending := pending w @ [m]\<rparr>)))"

definition ref_close :: "(unit, world) action" where
  "ref_close w = (Inr (), w\<lparr>pending := [], persistent := [], deleted := []\<rparr>)"

text \<open>
  \<open>setattr(self, k, v)\<close> stores the value in the object's dictionary under any name.
  One kind of name is guarded by the mapping: an attribute declared as a
  \<open>relationship\<close> takes an entity or \<open>None\<close>, and the assignment raises
  \<open>AttributeError\<close> for anything else.  No value of \<open>val\<close> is an entity.
\<close>

fun decl_relationships :: "(string \<times> decl) list \<Rightarrow> string list" where
  "decl_relationships [] = []"
| "decl_relationships ((n, Relationship _ _) # ds) = n # decl_relationships ds"
| "decl_relationships (_ # ds) = decl_relationships ds"

definition relationships_of :: "string \<Rightarrow> string list" where
  "relationships_of name = decl_relationships (class_body name)"

definition ref_setattr :: "nat \<Rightarrow> string \<Rightarrow> val \<Rightarrow> (unit, world) action" where
  "ref_setattr e k v w =
     (if \<not> e < length (heap w) then (Inl (OtherError ''AttributeError''), w)
      else if k \<in> set (relationships_of (cls (heap w ! e))) \<and> v \<noteq> VNone
      then (Inl (OtherError ''AttributeError''), w)
      else (Inr (), w\<lparr>heap := (heap w)[e := (heap w ! e)\<lparr>attrs := AList.update k v (attrs (heap w ! e))\<rparr>]\<rparr>))"

definition ref_session :: "(nat, val, world) session" where
  "ref_session =
     \<lparr> db_add = ref_add, db_commit = ref_commit, db_rollback = ref_rollback,
       db_delete = ref_delete, db_merge = ref_merge, db_close = ref_close,
       setattr = ref_setattr \<rparr>"

text \<open>Reading a row back by table and identity, and creating a transient object.\<close>

definition read_back :: "string \<Rightarrow> val \<Rightarrow> world \<Rightarrow> row option" where
  "read_back t i w = map_option snd (find (is_row t i) (store w))"

definition new_object :: "string \<Rightarrow> (string \<times> val) list \<Rightarrow> world \<Rightarrow> nat \<times> world" where
  "new_object c al w = (length (heap w), w\<lparr>heap := heap w @ [\<lparr>cls = c, attrs = al\<rparr>]\<rparr>)"

definition empty_world :: world where
  "empty_world = \<lparr> heap = [], pending = [], persistent = [], deleted = [], store = [], clock = 1000 \<rparr>"

section \<open>Concrete entities and worlds\<close>

text \<open>
  A stored user with chat id \<open>123\<close>, and a transient user \<open>jane\<close> with the same chat id
  and every required field set.
\<close>

definition stored_user :: row where
  "stored_user =
     [(''id'', VInt 1), (''chat_id'', VStr ''123''), (''fullname'', VNone),
      (''lang'', VStr ''en''), (''created_at'', VInt 1000), (''updated_at'', VInt 1000),
      (''is_admin'', VBool False), (''phone_number'', VStr ''+1000'')]"

definition jane :: obj where
  "jane =
     \<lparr>cls = ''User'',
      attrs = [(''chat_id'', VStr ''123''), (''fullname'', VStr ''Jane''),
               (''lang'', VStr ''en''), (''phone_number'', VStr ''+2000'')]\<rparr>"

definition w_conflict :: world where
  "w_conflict =
     \<lparr>heap = [jane], pending = [], persistent = [], deleted = [],
      store = [(''users'', stored_user)], clock = 2000\<rparr>"

text \<open>A transient book whose category 10 is not in the store.\<close>

definition orphan_book :: obj where
  "orphan_book =
     \<lparr>cls = ''Book'',
      attrs = [(''title'', VStr ''X''), (''author'', VStr ''A''), (''amount'', VInt 3),
               (''category_id'', VInt 10)]\<rparr>"

definition w_orphan :: world where
  "w_orphan =
     \<lparr>heap = [orphan_book], pending = [], persistent = [], deleted = [],
      store = [], clock = 2000\<rparr>"

text \<open>A transient user with a chat id nobody has, and no language set.\<close>

definition no_lang :: obj where
  "no_lang =
     \<lparr>cls = ''User'',
      attrs = [(''chat_id'', VStr ''999''), (''phone_number'', VStr ''+3000'')]\<rparr>"

definition w_no_lang :: world where
  "w_no_lang =
     \<lparr>heap = [no_lang], pending = [], persistent = [], deleted = [],
      store = [(''users'', stored_user)], clock = 2000\<rparr>"

text \<open>A transient user in an empty store.\<close>

definition ann :: obj where
  "ann =
     \<lparr>cls = ''User'',
      attrs = [(''chat_id'', VStr ''777''), (''lang'', VStr ''uz''),
               (''phone_number'', VStr ''+4000'')]\<rparr>"

definition w_ann :: world where
  "w_ann =
     \<lparr>heap = [ann], pending = [], persistent = [], deleted = [], store = [], clock = 2000\<rparr>"



text \<open>
  A store with category 10.  \<open>w_shelf a p\<close> holds a transient book with amount \<open>a\<close> and
  photo \<open>p\<close> in that category; \<open>w_stocked\<close> holds the book already stored, with amount 5,
  and loaded as object 0.
\<close>

definition fiction :: row where
  "fiction = [(''id'', VInt 10), (''name'', VStr ''Fiction'')]"

definition w_shelf :: "int \<Rightarrow> string \<Rightarrow> world" where
  "w_shelf a p =
     \<lparr>heap = [\<lparr>cls = ''Book'',
               attrs = [(''title'', VStr ''X''), (''author'', VStr ''A''), (''amount'', VInt a),
                        (''category_id'', VInt 10), (''photo'', VStr p)]\<rparr>],
      pending = [], persistent = [], deleted = [],
      store = [(''categorys'', fiction)], clock = 2000\<rparr>"









section \<open>Basic facts about logged runs\<close>

lemma logged_simps [simp]:
  "db_add (logged db) e = log_call (Add e) (db_add db e)"
  "db_commit (logged db) = log_call Commit (db_commit db)"
  "db_rollback (logged db) = log_call Rollback (db_rollback db)"
  "db_delete (logged db) e = log_call (Delete e) (db_delete db e)"
  "db_merge (logged db) e = log_call (Merge e) (db_merge db e)"
  "db_close (logged db) = log_call Close (db_close db)"
  "setattr (logged db) e k v = log_call (SetAttr e k v) (setattr db e k v)"
  by (simp_all add: logged_def)

lemmas action_defs =
  bindE_def ret_def except_IntegrityError_def try_finally_def log_call_def calls_of_def

lemma save_or_update_attempt:
  "save_or_update db self = try_finally (attempt db self) (db_close db)"
  by (simp add: save_or_update_def attempt_def)

lemma try_finally_calls:
  "fst (snd (try_finally m (log_call Close f) ls)) = fst (snd (m ls)) @ [Close]"
  by (simp add: try_finally_def log_call_def split: prod.splits sum.splits)

lemma try_finally_state: "snd (try_finally m f s) = snd (f (snd (m s)))"
  by (simp add: try_finally_def split: prod.splits sum.splits)

lemma attempt_calls:
  "fst (snd (attempt (logged db) e ([], s)))
     \<in> {[Add e], [Add e, Commit], [Add e, Commit, Merge e], [Add e, Merge e]}"
  by (simp add: attempt_def bindE_def ret_def except_IntegrityError_def log_call_def
           split: prod.splits sum.splits exc.splits)

section \<open>Upsert closes the session\<close>

text \<open>
  Claim C5.  Whatever the session does (the create succeeds, the merge fallback runs, or a
  failure is surfaced), the last call \<open>save_or_update\<close> makes on the session is \<open>close\<close>,
  it makes that call exactly once, and the state it leaves is the one \<open>close\<close> returned.
\<close>

theorem save_or_update_always_closes:
  "\<exists>cs s1. calls_of (save_or_update (logged db) self) s = cs @ [Close] \<and> Close \<notin> set cs
     \<and> snd (save_or_update db self s) = snd (db_close db s1)"
proof -
  let ?cs = "fst (snd (attempt (logged db) self ([], s)))"
  have "calls_of (save_or_update (logged db) self) s = ?cs @ [Close]"
    by (simp add: calls_of_def save_or_update_attempt try_finally_calls)
  moreover have "Close \<notin> set ?cs"
    using attempt_calls [of db self s] by auto
  moreover have "snd (save_or_update db self s) = snd (db_close db (snd (attempt db self s)))"
    by (simp add: save_or_update_attempt try_finally_state)
  ultimately show ?thesis by blast
qed

section \<open>What \<open>save_or_update\<close> does after a failed commit\<close>

text \<open>
  When \<open>add\<close> succeeds and \<open>commit\<close> raises an \<open>IntegrityError\<close> whose \<open>orig\<close> is a
  \<open>UniqueViolationError\<close>, the calls are add, commit, merge, close, in any session: the
  merge is followed by no commit.
\<close>

lemma save_or_update_unique_calls:
  assumes "db_add db self s = (Inr (), s1)"
    and "db_commit db s1 = (Inl (IntegrityError UniqueViolationError), s2)"
  shows "calls_of (save_or_update (logged db) self) s = [Add self, Commit, Merge self, Close]"
    and "snd (save_or_update db self s) = snd (db_close db (snd (db_merge db self s2)))"
  using assms
  by (simp_all add: save_or_update_def action_defs split: prod.splits sum.splits)

text \<open>
  When the \<open>orig\<close> is anything else, the handler falls through: the method closes the
  session and returns \<open>None\<close>, and the exception is gone.
\<close>

lemma save_or_update_other_integrity:
  assumes "db_add db self s = (Inr (), s1)"
    and "db_commit db s1 = (Inl (IntegrityError og), s2)"
    and "og \<noteq> UniqueViolationError"
    and "db_close db s2 = (Inr (), s3)"
  shows "save_or_update db self s = (Inr PyNone, s3)"
  using assms by (simp add: save_or_update_def action_defs)

text \<open>An exception that is not an \<open>IntegrityError\<close> is raised again after the close.\<close>

lemma save_or_update_other_error:
  assumes "db_add db self s = (Inr (), s1)"
    and "db_commit db s1 = (Inl (OtherError x), s2)"
    and "db_close db s2 = (Inr (), s3)"
  shows "save_or_update db self s = (Inl (OtherError x), s3)"
  using assms by (simp add: save_or_update_def action_defs)

text \<open>
  Claim C1, at user \<open>jane\<close> whose chat id \<open>123\<close> is already stored.  The commit inside
  \<open>save_or_update\<close> raises the uniqueness violation; the method calls merge, returns the
  merged object and closes the session.  It never commits the merge: the stored row is
  the one from before, its \<open>fullname\<close> still unset, while \<open>jane\<close> carries \<open>Jane\<close>.
\<close>

theorem save_or_update_conflict_leaves_row_unmerged:
  "fst (db_commit ref_session (snd (db_add ref_session 0 w_conflict)))
       = Inl (IntegrityError UniqueViolationError)
   \<and> fst (save_or_update ref_session 0 w_conflict) = Inr (PyObj 1)
   \<and> calls_of (save_or_update (logged ref_session) 0) w_conflict
       = [Add 0, Commit, Merge 0, Close]
   \<and> store (snd (save_or_update ref_session 0 w_conflict)) = store w_conflict
   \<and> read_back ''users'' (VInt 1) (snd (save_or_update ref_session 0 w_conflict))
       = Some stored_user
   \<and> getv stored_user ''fullname'' = VNone
   \<and> getv (attrs jane) ''fullname'' = VStr ''Jane''"
  by code_simp

text \<open>
  Claim C2, at a book whose category is not stored.  The commit raises an
  \<open>IntegrityError\<close> for the foreign key; \<open>save_or_update\<close> catches it, calls neither
  merge nor anything else but close, and returns \<open>None\<close> as if the book had been saved.
  Nothing was stored.
\<close>

theorem save_or_update_swallows_foreign_key_failure:
  "fst (db_commit ref_session (snd (db_add ref_session 0 w_orphan)))
       = Inl (IntegrityError ForeignKeyViolationError)
   \<and> save_or_update ref_session 0 w_orphan = (Inr PyNone, w_orphan)
   \<and> calls_of (save_or_update (logged ref_session) 0) w_orphan = [Add 0, Commit, Close]
   \<and> store w_orphan = []"
  by code_simp

text \<open>
  Claim C6, at a user whose chat id is new but whose \<open>lang\<close> is missing.  \<open>save\<close>
  raises the \<open>IntegrityError\<close> of the NOT NULL column; \<open>save_or_update\<close> on the same
  world returns \<open>None\<close>.
\<close>

theorem save_or_update_differs_from_save_on_new_key:
  "\<not> in_table ''users'' ''chat_id'' (getv (attrs no_lang) ''chat_id'') (store w_no_lang)
   \<and> fst (save ref_session 0 w_no_lang) = Inl (IntegrityError NotNullViolationError)
   \<and> fst (save_or_update ref_session 0 w_no_lang) = Inr PyNone
   \<and> store (snd (save_or_update ref_session 0 w_no_lang)) = store w_no_lang"
  by code_simp


section \<open>Tables and columns\<close>

text \<open>
  Claim C9.  The tables are \<open>users\<close>, \<open>categorys\<close> and \<open>books\<close>.  The columns of
  \<open>books\<close> do not include \<open>photo\<close>: a book saved with a photo is stored without it, and
  the row read back has no such field.
\<close>

theorem books_table_has_no_photo_column:
  "tables = [''users'', ''categorys'', ''books'']
   \<and> map fst (columns_of ''Book'')
       = [''id'', ''title'', ''author'', ''vol'', ''amount'', ''category_id'']
   \<and> getv (attrs (heap (w_shelf 4 ''p.jpg'') ! 0)) ''photo'' = VStr ''p.jpg''
   \<and> fst (save ref_session 0 (w_shelf 4 ''p.jpg'')) = Inr PyNone
   \<and> read_back ''books'' (VInt 1) (snd (save ref_session 0 (w_shelf 4 ''p.jpg'')))
       = Some [(''id'', VInt 1), (''title'', VStr ''X''), (''author'', VStr ''A''),
               (''vol'', VStr ''soft''), (''amount'', VInt 4), (''category_id'', VInt 10)]"
  by code_simp

section \<open>Create on the reference session\<close>

lemma map_of_refresh:
  "map_of (refresh r al) k = (case map_of (rev r) k of None \<Rightarrow> map_of al k | Some v \<Rightarrow> Some v)"
proof (induction r arbitrary: al)
  case Nil
  show ?case by (simp add: refresh_def)
next
  case (Cons x r)
  have "refresh (x # r) al = refresh r (AList.update (fst x) (snd x) al)"
    by (simp add: refresh_def)
  then show ?case
    using Cons.IH [of "AList.update (fst x) (snd x) al"]
    by (cases x) (simp add: update_conv map_add_def split: option.splits)
qed

lemma getv_refresh:
  "getv (refresh r al) k = (case map_of (rev r) k of None \<Rightarrow> getv al k | Some v \<Rightarrow> v)"
  by (simp add: getv_def map_of_refresh split: option.splits)

lemma insert_row_member:
  "(k, v) \<in> set (insert_row now t d al cols) \<Longrightarrow>
     \<exists>c. (k, c) \<in> set cols \<and> v = insert_value now t d al (k, c)"
  by (auto simp: insert_row_def)

lemma insert_value_keeps: "getv al k \<noteq> VNone \<Longrightarrow> insert_value now t d al (k, c) = getv al k"
  by (simp add: insert_value_def)

lemma refresh_keeps_set_attribute:
  assumes "getv al k \<noteq> VNone"
  shows "getv (refresh (insert_row now t d al cols) al) k = getv al k"
proof (cases "map_of (rev (insert_row now t d al cols)) k")
  case None
  then show ?thesis by (simp add: getv_refresh)
next
  case (Some v)
  then have "(k, v) \<in> set (insert_row now t d al cols)"
    using map_of_SomeD by fastforce
  then have "v = getv al k"
    using assms insert_row_member insert_value_keeps by blast
  with Some show ?thesis by (simp add: getv_refresh)
qed

lemma id_column_of_model:
  assumes "c \<in> set models" and "(''id'', x) \<in> set (columns_of c)"
  shows "primary_key x"
  using assms
  by (auto simp: models_def columns_of_def class_body_def User_def Category_def Book_def
        mapped_column_def)

lemma model_has_id_column:
  assumes "c \<in> set models"
  shows "''id'' \<in> fst ` set (columns_of c)"
  using assms
  by (auto simp: models_def columns_of_def class_body_def User_def Category_def Book_def)

lemma refresh_populates_id:
  assumes "c \<in> set models"
  shows "getv (refresh (insert_row now t d al (columns_of c)) al) ''id'' \<noteq> VNone"
proof -
  let ?r = "insert_row now t d al (columns_of c)"
  have "''id'' \<in> fst ` set (rev ?r)"
    using model_has_id_column [OF assms] by (force simp: insert_row_def)
  then obtain v where v: "map_of (rev ?r) ''id'' = Some v"
    by (metis domD dom_map_of_conv_image_fst)
  then have "(''id'', v) \<in> set ?r"
    using map_of_SomeD by fastforce
  then obtain x where x: "(''id'', x) \<in> set (columns_of c)"
    and vx: "v = insert_value now t d al (''id'', x)"
    using insert_row_member by blast
  have "primary_key x" using id_column_of_model [OF assms x] .
  then have "v \<noteq> VNone" using vx by (simp add: insert_value_def)
  with v show ?thesis by (simp add: getv_refresh)
qed

lemma flush_new_heap:
  "flush_new now es h d = Inr (h', d') \<Longrightarrow>
     length h' = length h \<and> (\<forall>i. i \<notin> set es \<longrightarrow> h' ! i = h ! i)"
proof (induction es arbitrary: h d)
  case Nil
  then show ?case by simp
next
  case (Cons e es)
  from Cons.prems have e: "e < length h"
    by (simp split: if_splits)
  let ?ob = "h ! e"
  let ?t = "tablename (cls ?ob)"
  let ?r = "insert_row now ?t d (attrs ?ob) (columns_of (cls ?ob))"
  let ?h1 = "h[e := ?ob\<lparr>attrs := refresh ?r (attrs ?ob)\<rparr>]"
  from Cons.prems e have "flush_new now es ?h1 (d @ [(?t, ?r)]) = Inr (h', d')"
    by (simp add: Let_def split: option.splits)
  from Cons.IH [OF this] show ?case by auto
qed

lemma flush_new_snoc:
  "flush_new now (es @ [e]) h d = Inr (h', d') \<Longrightarrow>
     \<exists>h1 d1. flush_new now es h d = Inr (h1, d1) \<and> flush_new now [e] h1 d1 = Inr (h', d')"
proof (induction es arbitrary: h d)
  case Nil
  then show ?case by simp
next
  case (Cons a es)
  from Cons.prems have a: "a < length h"
    by (simp split: if_splits)
  let ?ob = "h ! a"
  let ?t = "tablename (cls ?ob)"
  let ?r = "insert_row now ?t d (attrs ?ob) (columns_of (cls ?ob))"
  let ?h1 = "h[a := ?ob\<lparr>attrs := refresh ?r (attrs ?ob)\<rparr>]"
  from Cons.prems a have v: "violation (columns_of (cls ?ob)) ?t ?r d = None"
    by (simp add: Let_def split: option.splits)
  from Cons.prems a v have "flush_new now (es @ [e]) ?h1 (d @ [(?t, ?r)]) = Inr (h', d')"
    by (simp add: Let_def)
  from Cons.IH [OF this] a v show ?case by (simp add: Let_def)
qed

lemma flush_new_single:
  assumes "flush_new now [e] h d = Inr (h', d')"
  shows "e < length h \<and>
     h' ! e = (h ! e)\<lparr>attrs :=
        refresh (insert_row now (tablename (cls (h ! e))) d (attrs (h ! e)) (columns_of (cls (h ! e))))
          (attrs (h ! e))\<rparr>"
  using assms by (auto simp: Let_def split: if_splits option.splits)

lemma ref_commit_heap:
  assumes "ref_commit w = (Inr u, w')"
  shows "\<exists>d. flush_new (clock w) (pending w) (heap w) (store w) = Inr (heap w', d)"
  using assms
  by (auto simp: ref_commit_def split: sum.splits prod.splits)

lemma ref_add_transient:
  assumes "ref_add e w = (Inr u, w1)" and "e \<notin> set (pending w)"
    and "e \<notin> set (map fst (persistent w))"
  shows "e < length (heap w) \<and> cls (heap w ! e) \<in> set models \<and> w1 = w\<lparr>pending := pending w @ [e]\<rparr>"
  using assms by (auto simp: ref_add_def split: if_splits)

lemma save_ref_session:
  assumes "save ref_session e w = (Inr r, w')"
  shows "r = PyNone \<and> (\<exists>w1. ref_add e w = (Inr (), w1) \<and> ref_commit w1 = (Inr (), w'))"
  using assms
  by (auto simp: save_def bindE_def ret_def ref_session_def split: prod.splits sum.splits)

text \<open>
  Claim C3, as amended.  \<open>save\<close> returns \<open>None\<close> whenever it returns, in any session.  On
  the reference session, a successful \<open>save\<close> of a transient entity leaves the entity
  object with its \<open>id\<close> set, its class as it was, and every attribute the caller had set
  at the value the caller gave it.
\<close>

theorem save_returns_none_and_populates_identity:
  assumes "e \<notin> set (pending w)" and "e \<notin> set (map fst (persistent w))"
    and "save ref_session e w = (Inr r, w')"
  shows "r = PyNone
     \<and> (\<forall>y. fst (save db x s) = Inr y \<longrightarrow> y = PyNone)
     \<and> getv (attrs (heap w' ! e)) ''id'' \<noteq> VNone
     \<and> cls (heap w' ! e) = cls (heap w ! e)
     \<and> (\<forall>k. getv (attrs (heap w ! e)) k \<noteq> VNone
            \<longrightarrow> getv (attrs (heap w' ! e)) k = getv (attrs (heap w ! e)) k)"
proof -
  from save_ref_session [OF assms(3)] obtain w1 where r: "r = PyNone"
    and add: "ref_add e w = (Inr (), w1)" and commit: "ref_commit w1 = (Inr (), w')"
    by blast
  from ref_add_transient [OF add assms(1,2)] have e: "e < length (heap w)"
    and m: "cls (heap w ! e) \<in> set models" and w1: "w1 = w\<lparr>pending := pending w @ [e]\<rparr>"
    by auto
  from ref_commit_heap [OF commit] w1 obtain d where
    "flush_new (clock w) (pending w @ [e]) (heap w) (store w) = Inr (heap w', d)"
    by auto
  from flush_new_snoc [OF this] obtain h1 d1 where
    before: "flush_new (clock w) (pending w) (heap w) (store w) = Inr (h1, d1)"
    and last: "flush_new (clock w) [e] h1 d1 = Inr (heap w', d)"
    by blast
  from flush_new_heap [OF before] assms(1) have same: "h1 ! e = heap w ! e"
    by simp
  let ?ob = "heap w ! e"
  let ?row = "insert_row (clock w) (tablename (cls ?ob)) d1 (attrs ?ob) (columns_of (cls ?ob))"
  from flush_new_single [OF last] same
  have after: "heap w' ! e = ?ob\<lparr>attrs := refresh ?row (attrs ?ob)\<rparr>"
    by simp
  have none: "\<forall>y. fst (save db x s) = Inr y \<longrightarrow> y = PyNone"
    by (auto simp: save_def bindE_def ret_def split: prod.splits sum.splits)
  have ident: "getv (attrs (heap w' ! e)) ''id'' \<noteq> VNone"
    using after refresh_populates_id [OF m] by simp
  have kept: "\<forall>k. getv (attrs ?ob) k \<noteq> VNone
      \<longrightarrow> getv (attrs (heap w' ! e)) k = getv (attrs ?ob) k"
    using after refresh_keeps_set_attribute by simp
  from r none ident after kept show ?thesis by simp
qed

theorem save_returns_none_and_populates_identity_witness:
  "0 \<notin> set (pending w_ann) \<and> 0 \<notin> set (map fst (persistent w_ann))
   \<and> fst (save ref_session 0 w_ann) = Inr PyNone
   \<and> getv (attrs (heap (snd (save ref_session 0 w_ann)) ! 0)) ''id'' \<noteq> VNone
   \<and> getv (attrs (heap w_ann ! 0)) ''chat_id'' = VStr ''777''
   \<and> getv (attrs (heap (snd (save ref_session 0 w_ann)) ! 0)) ''chat_id'' = VStr ''777''"
proof -
  have h1: "0 \<notin> set (pending w_ann)" by code_simp
  have h2: "0 \<notin> set (map fst (persistent w_ann))" by code_simp
  have f: "fst (save ref_session 0 w_ann) = Inr PyNone" by code_simp
  then have h3: "save ref_session 0 w_ann = (Inr PyNone, snd (save ref_session 0 w_ann))"
    by (metis prod.collapse)
  have v: "getv (attrs (heap w_ann ! 0)) ''chat_id'' = VStr ''777''" by code_simp
  note t = save_returns_none_and_populates_identity
    [OF h1 h2 h3, where db = ref_session and x = 0 and s = w_ann]
  have i: "getv (attrs (heap (snd (save ref_session 0 w_ann)) ! 0)) ''id'' \<noteq> VNone"
    by (rule t [THEN conjunct2, THEN conjunct2, THEN conjunct1])
  have "getv (attrs (heap w_ann ! 0)) ''chat_id'' \<noteq> VNone
      \<longrightarrow> getv (attrs (heap (snd (save ref_session 0 w_ann)) ! 0)) ''chat_id''
          = getv (attrs (heap w_ann ! 0)) ''chat_id''"
    by (rule t [THEN conjunct2, THEN conjunct2, THEN conjunct2, THEN conjunct2, THEN spec])
  with v have "getv (attrs (heap (snd (save ref_session 0 w_ann)) ! 0)) ''chat_id'' = VStr ''777''"
    by simp
  with h1 h2 f i v show ?thesis by blast
qed

text \<open>
  Claim C3 as stated fails on the return value: a successful \<open>save\<close> returns \<open>None\<close>, not
  the entity.
\<close>

theorem save_does_not_return_entity:
  "fst (save ref_session 0 w_ann) = Inr PyNone
   \<and> fst (save ref_session 0 w_ann) \<noteq> Inr (PyObj 0)"
  by code_simp

section \<open>Failures of Create and Update\<close>



















section \<open>The stock amount\<close>

























section \<open>Update on the reference session\<close>





















section \<open>Delete\<close>

text \<open>
  \<open>delete\<close> marks the entity for deletion and commits, in one transaction; it returns
  \<open>True\<close> only when both calls succeed.  What the commit removes besides the entity's
  row is the store's affair.
\<close>

lemma delete_calls:
  "calls_of (delete (logged db) e) s \<in> {[Delete e], [Delete e, Commit]}"
  by (simp add: delete_def bindE_def ret_def log_call_def calls_of_def
           split: prod.splits sum.splits)

lemma delete_returns_true:
  assumes "fst (delete db e s) = Inr r"
  shows "r = PyTrue \<and> fst (db_delete db e s) = Inr ()
     \<and> db_commit db (snd (db_delete db e s)) = (Inr (), snd (delete db e s))"
  using assms
  by (auto simp: delete_def bindE_def ret_def split: prod.splits sum.splits)

end
